theory Spec2Isabelle
  imports Main
begin

section \<open>Values carried by the messages\<close>

text \<open>
  The handlers of \<^verbatim>\<open>server.js\<close> read fields of JSON payloads and combine them with
  the \<^verbatim>\<open>||\<close> operator, so what a handler does depends on whether a field is absent
  (\<^verbatim>\<open>undefined\<close>) and on whether its value is truthy. A JSON value is one of the six
  kinds below; for a number only its being zero matters to the code, so numbers are
  integers here. A field that may be absent has type \<open>jsval option\<close>, \<open>None\<close> being
  \<^verbatim>\<open>undefined\<close>.
\<close>

datatype jsval =
    JNull
  | JBool bool
  | JNum int
  | JStr string
  | JArr "jsval list"
  | JObj "(string \<times> jsval) list"

fun truthy :: "jsval \<Rightarrow> bool" where
  "truthy JNull = False"
| "truthy (JBool b) = b"
| "truthy (JNum n) = (n \<noteq> 0)"
| "truthy (JStr s) = (s \<noteq> [])"
| "truthy (JArr xs) = True"
| "truthy (JObj kvs) = True"

text \<open>\<^verbatim>\<open>a || d\<close> where \<^verbatim>\<open>a\<close> is a payload field and \<^verbatim>\<open>d\<close> is always defined.\<close>

fun js_or :: "jsval option \<Rightarrow> jsval \<Rightarrow> jsval" where
  "js_or None d = d"
| "js_or (Some v) d = (if truthy v then v else d)"

text \<open>
  \<^verbatim>\<open>a === b\<close>. Primitives are compared by value. Arrays and objects are compared by
  reference, and the two sides always come from two different decoded messages, so
  they are never the same object.
\<close>

fun strict_eq :: "jsval \<Rightarrow> jsval \<Rightarrow> bool" where
  "strict_eq JNull JNull = True"
| "strict_eq (JBool a) (JBool b) = (a = b)"
| "strict_eq (JNum a) (JNum b) = (a = b)"
| "strict_eq (JStr a) (JStr b) = (a = b)"
| "strict_eq a b = False"

text \<open>The same comparison when either side may be \<^verbatim>\<open>undefined\<close>.\<close>

fun strict_eq_opt :: "jsval option \<Rightarrow> jsval option \<Rightarrow> bool" where
  "strict_eq_opt None None = True"
| "strict_eq_opt (Some a) (Some b) = strict_eq a b"
| "strict_eq_opt a b = False"

text \<open>
  Whether a template literal can turn the value into a string. A primitive always
  can. An object decoded from JSON is converted by the \<^verbatim>\<open>toString\<close> it inherits, unless
  it has a key \<^verbatim>\<open>toString\<close> of its own: that value is never a function, the inherited
  \<^verbatim>\<open>valueOf\<close> gives the object back, and the conversion throws a \<^verbatim>\<open>TypeError\<close>. An array
  is joined, which converts each element that is not \<^verbatim>\<open>null\<close>.
\<close>

fun printable :: "jsval \<Rightarrow> bool" where
  "printable JNull = True"
| "printable (JBool b) = True"
| "printable (JNum n) = True"
| "printable (JStr s) = True"
| "printable (JArr xs) = list_all printable xs"
| "printable (JObj kvs) = (''toString'' \<notin> set (map fst kvs))"

datatype js_error = TypeError

section \<open>Records of the server\<close>

text \<open>
  Times are milliseconds since the epoch. \<^verbatim>\<open>lastSeen\<close> is stored as the ISO string of
  \<^verbatim>\<open>new Date()\<close> and read back with \<^verbatim>\<open>new Date(tablet.lastSeen)\<close>, which gives the same
  millisecond, so the field holds the number.
\<close>

record socket =
  socket_id :: string
  handshake_address :: string

record tabletInfo =
  id' :: jsval
  name :: jsval
  ip :: jsval
  status :: string
  currentUrl :: jsval
  lastSeen :: int
  uptime :: jsval
  stats :: jsval

text \<open>
  The payload of \<^verbatim>\<open>tablet-register\<close> and of \<^verbatim>\<open>tablet-status\<close>: an object whose fields
  are all optional. \<^verbatim>\<open>tablet-status\<close> reads only the last three. A message may also
  carry \<^verbatim>\<open>null\<close> or nothing at all in the payload's place; where a handler is given a
  \<open>payload option\<close>, \<open>None\<close> is that case; the other handlers are modelled on a
  payload object. A payload that is a number, a string or a boolean has none of the
  fields and reads like the object without fields.
\<close>

record payload =
  data_tabletId :: "jsval option"
  data_name :: "jsval option"
  data_ip :: "jsval option"
  data_currentUrl :: "jsval option"
  data_uptime :: "jsval option"
  data_stats :: "jsval option"

record command_data =
  cmd_tabletId :: "jsval option"
  cmd_command :: "jsval option"
  cmd_params :: "jsval option"

record executed_data =
  ex_command :: "jsval option"
  ex_success :: "jsval option"
  ex_message :: "jsval option"

record commandInfo =
  tabletId :: "jsval option"
  command :: "jsval option"
  params :: "jsval option"
  timestamp :: int
  sourceIp :: string

text \<open>What a handler sends: to every connection but one, or to one connection.\<close>

datatype message =
    TabletOnline tabletInfo
  | TabletStatusUpdate tabletInfo
  | TabletOffline tabletInfo
  | RemoteCommand "jsval option" "jsval option"
  | CommandError string "jsval option"
  | CommandResult "jsval option" "jsval option" "jsval option" "jsval option" int

datatype emission =
    Broadcast string message
  | Emit string message

text \<open>
  The calls a handler makes on the database object. No handler awaits the promise
  such a call returns, so a handler's own effect is the call it issued.
\<close>

datatype db_call =
    UpdateTablet tabletInfo
  | LogCommand commandInfo

text \<open>
  The program installs no handler for an exception that leaves an event handler, so
  such an exception ends the process. \<open>uncaught\<close> holds it; the rest of the state is
  what the handler had done when it threw.
\<close>

record server =
  activeTablets :: "(string \<times> tabletInfo) list"
  sockets :: "socket list"
  emitted :: "emission list"
  dbCalls :: "db_call list"
  uncaught :: "js_error option"

section \<open>The Map of active tablets\<close>

text \<open>
  A JavaScript \<^verbatim>\<open>Map\<close> keeps its entries in insertion order; \<^verbatim>\<open>set\<close> on a key that is
  present replaces the value where it stands, and on a new key appends the entry.
\<close>

fun Map_get :: "(string \<times> 'v) list \<Rightarrow> string \<Rightarrow> 'v option" where
  "Map_get [] k = None"
| "Map_get ((k', v) # m) k = (if k' = k then Some v else Map_get m k)"

fun Map_set :: "string \<Rightarrow> 'v \<Rightarrow> (string \<times> 'v) list \<Rightarrow> (string \<times> 'v) list" where
  "Map_set k v [] = [(k, v)]"
| "Map_set k v ((k', v') # m) = (if k' = k then (k, v) # m else (k', v') # Map_set k v m)"

fun Map_delete :: "string \<Rightarrow> (string \<times> 'v) list \<Rightarrow> (string \<times> 'v) list" where
  "Map_delete k [] = []"
| "Map_delete k ((k', v) # m) = (if k' = k then Map_delete k m else (k', v) # Map_delete k m)"

section \<open>Socket handlers\<close>

text \<open>
  \<^verbatim>\<open>socket.on('tablet-register', ...)\<close>. Reading \<^verbatim>\<open>data.tabletId\<close> throws when there is no
  payload, before anything is done. The \<^verbatim>\<open>console.log\<close> between the call of
  \<^verbatim>\<open>db.updateTablet\<close> and the broadcast prints the name and the address of the record
  in a template literal, which throws when one of them cannot be turned into a string.
\<close>

definition tabletInfo_of :: "socket \<Rightarrow> int \<Rightarrow> payload \<Rightarrow> tabletInfo" where
  "tabletInfo_of socket now data =
     \<lparr> id' = js_or (data_tabletId data) (JStr (socket_id socket)),
       name = js_or (data_name data) (JStr (''Tablet-'' @ take 8 (socket_id socket))),
       ip = js_or (data_ip data) (JStr (handshake_address socket)),
       status = ''online'',
       currentUrl = js_or (data_currentUrl data) (JStr ''''),
       lastSeen = now,
       uptime = js_or (data_uptime data) (JStr ''00:00:00''),
       stats = js_or (data_stats data) (JObj []) \<rparr>"

definition tablet_register :: "socket \<Rightarrow> int \<Rightarrow> payload option \<Rightarrow> server \<Rightarrow> server" where
  "tablet_register socket now data st =
     (case data of
        None \<Rightarrow> st\<lparr> uncaught := Some TypeError \<rparr>
      | Some d \<Rightarrow>
          (let tabletInfo = tabletInfo_of socket now d;
               st' = st\<lparr> activeTablets := Map_set (socket_id socket) tabletInfo (activeTablets st),
                         dbCalls := dbCalls st @ [UpdateTablet tabletInfo] \<rparr>
           in if printable (name tabletInfo) \<and> printable (ip tabletInfo)
              then st'\<lparr> emitted := emitted st @
                            [Broadcast (socket_id socket) (TabletOnline tabletInfo)] \<rparr>
              else st'\<lparr> uncaught := Some TypeError \<rparr>))"

text \<open>\<^verbatim>\<open>socket.on('tablet-status', ...)\<close>\<close>

definition tablet_status :: "socket \<Rightarrow> int \<Rightarrow> payload \<Rightarrow> server \<Rightarrow> server" where
  "tablet_status socket now data st =
     (case Map_get (activeTablets st) (socket_id socket) of
        None \<Rightarrow> st
      | Some tablet \<Rightarrow>
          (let tablet' = tablet\<lparr> currentUrl := js_or (data_currentUrl data) (currentUrl tablet),
                                 uptime := js_or (data_uptime data) (uptime tablet),
                                 stats := js_or (data_stats data) (stats tablet),
                                 lastSeen := now \<rparr> in
           st\<lparr> activeTablets := Map_set (socket_id socket) tablet' (activeTablets st),
               dbCalls := dbCalls st @ [UpdateTablet tablet'],
               emitted := emitted st @ [Broadcast (socket_id socket) (TabletStatusUpdate tablet')] \<rparr>))"

text \<open>
  \<^verbatim>\<open>socket.on('send-command', ...)\<close>. The target is looked for among the connected
  sockets, in connection order; a socket with no registered tablet contributes
  \<^verbatim>\<open>undefined\<close> to the comparison.
\<close>

definition send_command :: "socket \<Rightarrow> int \<Rightarrow> command_data \<Rightarrow> server \<Rightarrow> server" where
  "send_command socket now data st =
     (case find (\<lambda>s. strict_eq_opt (map_option id' (Map_get (activeTablets st) (socket_id s)))
                                   (cmd_tabletId data)) (sockets st) of
        Some targetSocket \<Rightarrow>
          st\<lparr> emitted := emitted st @
                 [Emit (socket_id targetSocket) (RemoteCommand (cmd_command data) (cmd_params data))],
              dbCalls := dbCalls st @
                 [LogCommand \<lparr> tabletId = cmd_tabletId data, command = cmd_command data,
                               params = cmd_params data, timestamp = now,
                               sourceIp = handshake_address socket \<rparr>] \<rparr>
      | None \<Rightarrow>
          st\<lparr> emitted := emitted st @
                 [Emit (socket_id socket)
                    (CommandError ''Tablet no encontrada o desconectada'' (cmd_tabletId data))] \<rparr>)"

text \<open>\<^verbatim>\<open>socket.on('command-executed', ...)\<close>\<close>

definition command_executed :: "socket \<Rightarrow> int \<Rightarrow> executed_data \<Rightarrow> server \<Rightarrow> server" where
  "command_executed socket now data st =
     st\<lparr> emitted := emitted st @
            [Broadcast (socket_id socket)
               (CommandResult (map_option id' (Map_get (activeTablets st) (socket_id socket)))
                  (ex_command data) (ex_success data) (ex_message data) now)] \<rparr>"

text \<open>\<^verbatim>\<open>socket.on('disconnect', ...)\<close>\<close>

definition disconnect :: "socket \<Rightarrow> int \<Rightarrow> server \<Rightarrow> server" where
  "disconnect socket now st =
     (case Map_get (activeTablets st) (socket_id socket) of
        None \<Rightarrow> st
      | Some tablet \<Rightarrow>
          (let tablet' = tablet\<lparr> status := ''offline'', lastSeen := now \<rparr> in
           st\<lparr> dbCalls := dbCalls st @ [UpdateTablet tablet'],
               activeTablets := Map_delete (socket_id socket) (activeTablets st),
               emitted := emitted st @ [Broadcast (socket_id socket) (TabletOffline tablet')] \<rparr>))"

section \<open>The REST endpoints that read or use the registry\<close>

text \<open>\<^verbatim>\<open>GET /api/tablets\<close>: the values of the Map.\<close>

definition snapshot :: "server \<Rightarrow> tabletInfo list" where
  "snapshot st = map snd (activeTablets st)"

text \<open>
  \<^verbatim>\<open>POST /api/command/:tabletId\<close>. The route parameter is a string. The reply is the
  status code with the \<^verbatim>\<open>success\<close> flag and either the two parts of the message or
  the error text.
\<close>

datatype reply =
    CommandSent "jsval option" string
  | Failure nat string

definition api_command ::
    "string \<Rightarrow> string \<Rightarrow> int \<Rightarrow> jsval option \<Rightarrow> jsval option \<Rightarrow> server \<Rightarrow> reply \<times> server" where
  "api_command tabletId_param req_ip now cmd prm st =
     (case find (\<lambda>(_, tablet). strict_eq (id' tablet) (JStr tabletId_param)) (activeTablets st) of
        Some (socketId, _) \<Rightarrow>
          (if socketId \<noteq> [] then
             (case find (\<lambda>s. socket_id s = socketId) (sockets st) of
                Some targetSocket \<Rightarrow>
                  (CommandSent cmd tabletId_param,
                   st\<lparr> emitted := emitted st @ [Emit (socket_id targetSocket) (RemoteCommand cmd prm)],
                       dbCalls := dbCalls st @
                         [LogCommand \<lparr> tabletId = Some (JStr tabletId_param), command = cmd,
                                       params = prm, timestamp = now, sourceIp = req_ip \<rparr>] \<rparr>)
              | None \<Rightarrow> (Failure 404 ''Socket no encontrado'', st))
           else (Failure 404 ''Tablet no encontrada'', st))
      | None \<Rightarrow> (Failure 404 ''Tablet no encontrada'', st))"

text \<open>\<^verbatim>\<open>GET /api/stats\<close>: the two counts.\<close>

definition totalTablets :: "server \<Rightarrow> nat" where
  "totalTablets st = length (activeTablets st)"

definition onlineTablets :: "server \<Rightarrow> nat" where
  "onlineTablets st = length (filter (\<lambda>t. status t = ''online'') (map snd (activeTablets st)))"

section \<open>The staleness sweep\<close>

text \<open>
  The \<^verbatim>\<open>setInterval\<close> callback. The loop walks the entries of the Map and deletes the
  entry it stands on, which never hides a later entry from the iteration.
\<close>

fun sweep_loop :: "int \<Rightarrow> (string \<times> tabletInfo) list \<Rightarrow> server \<Rightarrow> server" where
  "sweep_loop fiveMinutesAgo [] st = st"
| "sweep_loop fiveMinutesAgo ((socketId, tablet) # entries) st =
     (if lastSeen tablet < fiveMinutesAgo then
        (let tablet' = tablet\<lparr> status := ''offline'' \<rparr> in
         sweep_loop fiveMinutesAgo entries
           (st\<lparr> dbCalls := dbCalls st @ [UpdateTablet tablet'],
                activeTablets := Map_delete socketId (activeTablets st) \<rparr>))
      else sweep_loop fiveMinutesAgo entries st)"

definition sweep :: "int \<Rightarrow> server \<Rightarrow> server" where
  "sweep now st = sweep_loop (now - 5 * 60 * 1000) (activeTablets st) st"

section \<open>Events of the process\<close>

text \<open>
  One event is one run of a handler to its end. The transport adds a socket to
  \<^verbatim>\<open>io.sockets.sockets\<close> before the connection handler runs and takes it out before
  the \<^verbatim>\<open>disconnect\<close> handler runs.
\<close>

datatype event =
    On_connection socket
  | On_tablet_register socket int "payload option"
  | On_tablet_status socket int payload
  | On_send_command socket int command_data
  | On_command_executed socket int executed_data
  | On_disconnect socket int
  | Post_api_command string string int "jsval option" "jsval option"
  | Interval_sweep int

fun step :: "event \<Rightarrow> server \<Rightarrow> server" where
  "step (On_connection socket) st = st\<lparr> sockets := sockets st @ [socket] \<rparr>"
| "step (On_tablet_register socket now data) st = tablet_register socket now data st"
| "step (On_tablet_status socket now data) st = tablet_status socket now data st"
| "step (On_send_command socket now data) st = send_command socket now data st"
| "step (On_command_executed socket now data) st = command_executed socket now data st"
| "step (On_disconnect socket now) st =
     disconnect socket now
       (st\<lparr> sockets := filter (\<lambda>s. socket_id s \<noteq> socket_id socket) (sockets st) \<rparr>)"
| "step (Post_api_command tabletId_param req_ip now cmd prm) st =
     snd (api_command tabletId_param req_ip now cmd prm st)"
| "step (Interval_sweep now) st = sweep now st"

definition startup :: server where
  "startup = \<lparr> activeTablets = [], sockets = [], emitted = [], dbCalls = [],
               uncaught = None \<rparr>"

text \<open>A process that an uncaught exception has ended handles no further event.\<close>

fun run :: "event list \<Rightarrow> server \<Rightarrow> server" where
  "run [] st = st"
| "run (ev # evs) st = (if uncaught st = None then run evs (step ev st) else st)"

section \<open>The persistence gateway\<close>

text \<open>
  \<^verbatim>\<open>database-postgres.js\<close>. What PostgreSQL does with a statement is outside the
  program; the database is the list of statements that were carried out, the lines
  written with \<^verbatim>\<open>console.error\<close> (without the leading pictograph) and the number of
  queries sent to the pool. Whether a query succeeds is the environment's choice.
\<close>

datatype query_outcome = Resolved | Rejected string

datatype settled = Fulfilled | RejectedWith string

datatype statement =
    InsertTablet tabletInfo
  | InsertCommandLog commandInfo

record database =
  executed :: "statement list"
  console_error :: "string list"
  queries :: nat

definition pool_query :: "query_outcome \<Rightarrow> statement \<Rightarrow> database \<Rightarrow> settled \<times> database" where
  "pool_query outcome stmt db =
     (case outcome of
        Resolved \<Rightarrow> (Fulfilled, db\<lparr> queries := queries db + 1, executed := executed db @ [stmt] \<rparr>)
      | Rejected msg \<Rightarrow> (RejectedWith msg, db\<lparr> queries := queries db + 1 \<rparr>))"

text \<open>\<^verbatim>\<open>async updateTablet(tabletInfo)\<close>: the query inside \<^verbatim>\<open>try\<close>, the log inside \<^verbatim>\<open>catch\<close>.\<close>

definition updateTablet :: "query_outcome \<Rightarrow> tabletInfo \<Rightarrow> database \<Rightarrow> settled \<times> database" where
  "updateTablet outcome tabletInfo db =
     (case pool_query outcome (InsertTablet tabletInfo) db of
        (Fulfilled, db') \<Rightarrow> (Fulfilled, db')
      | (RejectedWith msg, db') \<Rightarrow>
          (Fulfilled,
           db'\<lparr> console_error := console_error db' @ [''Error actualizando tablet: '' @ msg] \<rparr>))"

text \<open>\<^verbatim>\<open>async logCommand(commandInfo)\<close>\<close>

definition logCommand :: "query_outcome \<Rightarrow> commandInfo \<Rightarrow> database \<Rightarrow> settled \<times> database" where
  "logCommand outcome commandInfo db =
     (case pool_query outcome (InsertCommandLog commandInfo) db of
        (Fulfilled, db') \<Rightarrow> (Fulfilled, db')
      | (RejectedWith msg, db') \<Rightarrow>
          (Fulfilled,
           db'\<lparr> console_error := console_error db' @ [''Error logging comando: '' @ msg] \<rparr>))"

text \<open>
  The calls a handler issued reach the database one by one, each with the outcome the
  environment gives it; the promises are collected, nobody reads them.
\<close>

fun issue :: "query_outcome \<Rightarrow> db_call \<Rightarrow> database \<Rightarrow> settled \<times> database" where
  "issue outcome (UpdateTablet tabletInfo) db = updateTablet outcome tabletInfo db"
| "issue outcome (LogCommand commandInfo) db = logCommand outcome commandInfo db"

fun issue_all :: "(query_outcome \<times> db_call) list \<Rightarrow> database \<Rightarrow> settled list \<times> database" where
  "issue_all [] db = ([], db)"
| "issue_all ((outcome, c) # cs) db =
     (case issue outcome c db of
        (p, db') \<Rightarrow> (case issue_all cs db' of (ps, db'') \<Rightarrow> (p # ps, db'')))"

text \<open>
  One event with the database behind it: the handler runs, and the calls it added
  to the ones issued before are carried out with the given outcomes.
\<close>

definition handle ::
    "event \<Rightarrow> query_outcome list \<Rightarrow> server \<times> database \<Rightarrow> server \<times> settled list \<times> database" where
  "handle ev outcomes sd =
     (let st' = step ev (fst sd);
          issued = drop (length (dbCalls (fst sd))) (dbCalls st')
      in (st', issue_all (zip outcomes issued) (snd sd)))"

section \<open>Example inputs\<close>

definition tablet_A :: socket where
  "tablet_A = \<lparr> socket_id = ''sockAAAAAAAA0001'', handshake_address = ''10.0.0.1'' \<rparr>"

definition tablet_B :: socket where
  "tablet_B = \<lparr> socket_id = ''sockBBBBBBBB0002'', handshake_address = ''10.0.0.2'' \<rparr>"

definition dashboard :: socket where
  "dashboard = \<lparr> socket_id = ''sockDDDDDDDD0003'', handshake_address = ''10.0.0.9'' \<rparr>"

definition no_fields :: payload where
  "no_fields = \<lparr> data_tabletId = None, data_name = None, data_ip = None,
                  data_currentUrl = None, data_uptime = None, data_stats = None \<rparr>"

definition lobby :: payload where
  "lobby = no_fields\<lparr> data_tabletId := Some (JStr ''A''), data_name := Some (JStr ''Lobby''),
                       data_currentUrl := Some (JStr ''http://a'') \<rparr>"


definition registered_A :: server where
  "registered_A = run [On_connection tablet_A, On_tablet_register tablet_A 10 (Some lobby)] startup"

definition reload :: command_data where
  "reload = \<lparr> cmd_tabletId = Some (JStr ''Z''), cmd_command = Some (JStr ''reload''),
              cmd_params = Some (JObj []) \<rparr>"

definition watched_A :: server where
  "watched_A = run [On_connection tablet_A, On_connection dashboard,
                    On_tablet_register tablet_A 10 (Some lobby)] startup"

definition two_tablets :: server where
  "two_tablets = run [On_connection tablet_A, On_connection tablet_B,
                      On_tablet_register tablet_A 10 (Some lobby),
                      On_tablet_register tablet_B 20 (Some (no_fields\<lparr> data_tabletId := Some (JStr ''B'') \<rparr>)),
                      On_tablet_status tablet_B 299000 no_fields] startup"

definition history_sweep :: "event list" where
  "history_sweep = [On_connection tablet_A, On_connection tablet_B,
                    On_tablet_register tablet_A 10 (Some lobby),
                    On_tablet_register tablet_B 20 (Some (no_fields\<lparr> data_tabletId := Some (JStr ''B'') \<rparr>)),
                    On_tablet_status tablet_B 299000 no_fields,
                    Interval_sweep 300011]"

definition history_disconnect :: "event list" where
  "history_disconnect = [On_connection tablet_A, On_tablet_register tablet_A 10 (Some lobby),
                         On_disconnect tablet_A 5000]"

definition empty_db :: database where
  "empty_db = \<lparr> executed = [], console_error = [], queries = 0 \<rparr>"

definition unprintable_name :: payload where
  "unprintable_name = no_fields\<lparr> data_name := Some (JObj [(''toString'', JNum 1)]) \<rparr>"

section \<open>Facts about the Map operations\<close>

lemma Map_get_set: "Map_get (Map_set k v m) k' = (if k' = k then Some v else Map_get m k')"
  by (induction m) auto

lemma Map_get_delete: "Map_get (Map_delete k m) k' = (if k' = k then None else Map_get m k')"
  by (induction m) auto

lemma Map_delete_filter: "Map_delete k m = filter (\<lambda>(k', v). k' \<noteq> k) m"
  by (induction m) auto

lemma map_fst_Map_set:
  "map fst (Map_set k v m) = (if k \<in> set (map fst m) then map fst m else map fst m @ [k])"
  by (induction m) (force simp: image_iff)+

lemma keys_Map_set: "set (map fst (Map_set k v m)) = insert k (set (map fst m))"
  by (auto simp: map_fst_Map_set)

lemma distinct_Map_set: "distinct (map fst m) \<Longrightarrow> distinct (map fst (Map_set k v m))"
  by (simp add: map_fst_Map_set)

lemma set_Map_set: "set (Map_set k v m) \<subseteq> insert (k, v) (set m)"
  by (induction m) (auto split: if_splits)

lemma set_Map_delete: "set (Map_delete k m) \<subseteq> set m"
  by (simp add: Map_delete_filter)

lemma distinct_Map_delete: "distinct (map fst m) \<Longrightarrow> distinct (map fst (Map_delete k m))"
  by (simp add: Map_delete_filter distinct_map_filter)

lemma Map_get_mem: "Map_get m k = Some v \<Longrightarrow> (k, v) \<in> set m"
  by (induction m) (auto split: if_splits)

lemma Map_get_None: "Map_get m k = None \<longleftrightarrow> k \<notin> fst ` set m"
  by (induction m) (auto split: if_splits)

lemma Map_get_distinct: "distinct (map fst m) \<Longrightarrow> (k, v) \<in> set m \<Longrightarrow> Map_get m k = Some v"
  by (induction m) (force split: if_splits)+

lemma Map_set_other: "k' \<noteq> k \<Longrightarrow> Map_get (Map_set k v m) k' = Map_get m k'"
  by (simp add: Map_get_set)

lemma tablet_register_bound:
  "Map_get (activeTablets (tablet_register socket now (Some data) st)) (socket_id socket)
     = Some (tabletInfo_of socket now data)"
  by (simp add: tablet_register_def Let_def Map_get_set)

lemma tablet_register_others:
  "k \<noteq> socket_id socket \<Longrightarrow>
   Map_get (activeTablets (tablet_register socket now (Some data) st)) k = Map_get (activeTablets st) k"
  by (simp add: tablet_register_def Let_def Map_get_set)


lemma tablet_register_activeTablets:
  "activeTablets (tablet_register socket now (Some data) st)
     = Map_set (socket_id socket) (tabletInfo_of socket now data) (activeTablets st)"
  by (simp add: tablet_register_def Let_def)

lemma tablet_register_no_payload:
  "tablet_register socket now None st = st\<lparr> uncaught := Some TypeError \<rparr>"
  by (simp add: tablet_register_def)

section \<open>Facts about the handlers\<close>

lemma tablet_status_bound:
  "Map_get (activeTablets st) (socket_id socket) = Some tablet \<Longrightarrow>
   tablet_status socket now data st =
     st\<lparr> activeTablets := Map_set (socket_id socket)
            (tablet\<lparr> currentUrl := js_or (data_currentUrl data) (currentUrl tablet),
                     uptime := js_or (data_uptime data) (uptime tablet),
                     stats := js_or (data_stats data) (stats tablet),
                     lastSeen := now \<rparr>) (activeTablets st),
         dbCalls := dbCalls st @ [UpdateTablet
            (tablet\<lparr> currentUrl := js_or (data_currentUrl data) (currentUrl tablet),
                     uptime := js_or (data_uptime data) (uptime tablet),
                     stats := js_or (data_stats data) (stats tablet),
                     lastSeen := now \<rparr>)],
         emitted := emitted st @ [Broadcast (socket_id socket) (TabletStatusUpdate
            (tablet\<lparr> currentUrl := js_or (data_currentUrl data) (currentUrl tablet),
                     uptime := js_or (data_uptime data) (uptime tablet),
                     stats := js_or (data_stats data) (stats tablet),
                     lastSeen := now \<rparr>))] \<rparr>"
  by (simp add: tablet_status_def Let_def)

lemma tablet_status_unbound:
  "Map_get (activeTablets st) (socket_id socket) = None \<Longrightarrow> tablet_status socket now data st = st"
  by (simp add: tablet_status_def)

lemma disconnect_bound:
  "Map_get (activeTablets st) (socket_id socket) = Some tablet \<Longrightarrow>
   disconnect socket now st =
     st\<lparr> dbCalls := dbCalls st @ [UpdateTablet (tablet\<lparr> status := ''offline'', lastSeen := now \<rparr>)],
         activeTablets := Map_delete (socket_id socket) (activeTablets st),
         emitted := emitted st @
           [Broadcast (socket_id socket) (TabletOffline (tablet\<lparr> status := ''offline'', lastSeen := now \<rparr>))] \<rparr>"
  by (simp add: disconnect_def Let_def)

lemma registered_A_eq:
  "registered_A =
     \<lparr> activeTablets = [(''sockAAAAAAAA0001'',
          \<lparr> id' = JStr ''A'', name = JStr ''Lobby'', ip = JStr ''10.0.0.1'', status = ''online'',
            currentUrl = JStr ''http://a'', lastSeen = 10, uptime = JStr ''00:00:00'',
            stats = JObj [] \<rparr>)],
       sockets = [tablet_A],
       emitted = [Broadcast ''sockAAAAAAAA0001'' (TabletOnline
          \<lparr> id' = JStr ''A'', name = JStr ''Lobby'', ip = JStr ''10.0.0.1'', status = ''online'',
            currentUrl = JStr ''http://a'', lastSeen = 10, uptime = JStr ''00:00:00'',
            stats = JObj [] \<rparr>)],
       dbCalls = [UpdateTablet
          \<lparr> id' = JStr ''A'', name = JStr ''Lobby'', ip = JStr ''10.0.0.1'', status = ''online'',
            currentUrl = JStr ''http://a'', lastSeen = 10, uptime = JStr ''00:00:00'',
            stats = JObj [] \<rparr>],
       uncaught = None \<rparr>"
  by (simp add: registered_A_def startup_def tablet_register_def tabletInfo_of_def Let_def
      lobby_def no_fields_def tablet_A_def)

lemma sweep_loop_activeTablets:
  "activeTablets (sweep_loop c es st)
     = filter (\<lambda>(k, t). k \<notin> fst ` {e \<in> set es. lastSeen (snd e) < c}) (activeTablets st)"
proof (induction es arbitrary: st)
  case Nil
  show ?case by simp
next
  case (Cons e es)
  obtain k t where e: "e = (k, t)" by (cases e)
  show ?case
  proof (cases "lastSeen t < c")
    case True
    have "{x \<in> set (e # es). lastSeen (snd x) < c} = insert (k, t) {x \<in> set es. lastSeen (snd x) < c}"
      using True e by auto
    then show ?thesis
      using True e by (simp add: Cons.IH Let_def Map_delete_filter) (rule filter_cong, auto)
  next
    case False
    have "{x \<in> set (e # es). lastSeen (snd x) < c} = {x \<in> set es. lastSeen (snd x) < c}"
      using False e by auto
    then show ?thesis
      using False e by (simp add: Cons.IH)
  qed
qed

lemma sweep_loop_dbCalls:
  "dbCalls (sweep_loop c es st)
     = dbCalls st @ map (\<lambda>(k, t). UpdateTablet (t\<lparr> status := ''offline'' \<rparr>))
                        (filter (\<lambda>(k, t). lastSeen t < c) es)"
  by (induction es arbitrary: st) (auto simp: Let_def)

lemma sweep_loop_emitted: "emitted (sweep_loop c es st) = emitted st"
  by (induction es arbitrary: st) (auto simp: Let_def)

lemma sweep_loop_sockets: "sockets (sweep_loop c es st) = sockets st"
  by (induction es arbitrary: st) (auto simp: Let_def)

lemma sweep_activeTablets:
  assumes "distinct (map fst (activeTablets st))"
  shows "activeTablets (sweep now st)
           = filter (\<lambda>(k, t). \<not> lastSeen t < now - 300000) (activeTablets st)"
proof -
  let ?m = "activeTablets st" and ?c = "now - 5 * 60 * 1000"
  have "filter (\<lambda>(k, t). k \<notin> fst ` {e \<in> set ?m. lastSeen (snd e) < ?c}) ?m
          = filter (\<lambda>(k, t). \<not> lastSeen t < ?c) ?m"
  proof (rule filter_cong [OF refl])
    fix x assume x: "x \<in> set ?m"
    obtain k t where kt: "x = (k, t)" by (cases x)
    have "k \<in> fst ` {e \<in> set ?m. lastSeen (snd e) < ?c} \<longleftrightarrow> lastSeen t < ?c"
    proof
      assume "k \<in> fst ` {e \<in> set ?m. lastSeen (snd e) < ?c}"
      then obtain t' where t': "(k, t') \<in> set ?m" "lastSeen t' < ?c" by auto
      from assms t'(1) x kt have "t' = t" by (metis eq_key_imp_eq_value)
      with t'(2) show "lastSeen t < ?c" by simp
    next
      assume "lastSeen t < ?c"
      with x kt show "k \<in> fst ` {e \<in> set ?m. lastSeen (snd e) < ?c}" by force
    qed
    with kt show "(case x of (k, t) \<Rightarrow> k \<notin> fst ` {e \<in> set ?m. lastSeen (snd e) < ?c})
                   = (case x of (k, t) \<Rightarrow> \<not> lastSeen t < ?c)" by simp
  qed
  then show ?thesis by (simp add: sweep_def sweep_loop_activeTablets)
qed

lemma watched_A_eq:
  "watched_A = registered_A\<lparr> sockets := [tablet_A, dashboard] \<rparr>"
  by (simp add: watched_A_def registered_A_def startup_def tablet_register_def Let_def)

lemma two_tablets_active:
  "activeTablets two_tablets =
         [(''sockAAAAAAAA0001'',
           \<lparr> id' = JStr ''A'', name = JStr ''Lobby'', ip = JStr ''10.0.0.1'', status = ''online'',
             currentUrl = JStr ''http://a'', lastSeen = 10, uptime = JStr ''00:00:00'',
             stats = JObj [] \<rparr>),
          (''sockBBBBBBBB0002'',
           \<lparr> id' = JStr ''B'', name = JStr ''Tablet-sockBBBB'', ip = JStr ''10.0.0.2'',
             status = ''online'', currentUrl = JStr [], lastSeen = 299000,
             uptime = JStr ''00:00:00'', stats = JObj [] \<rparr>)]"
  by (simp add: two_tablets_def startup_def tablet_register_def tablet_status_def tabletInfo_of_def
      Let_def lobby_def no_fields_def tablet_A_def tablet_B_def)

lemma sweep_dbCalls:
  "dbCalls (sweep now st)
     = dbCalls st @ map (\<lambda>(k, t). UpdateTablet (t\<lparr> status := ''offline'' \<rparr>))
                        (filter (\<lambda>(k, t). lastSeen t < now - 300000) (activeTablets st))"
  by (simp add: sweep_def sweep_loop_dbCalls)

lemma sweep_emitted: "emitted (sweep now st) = emitted st"
  by (simp add: sweep_def sweep_loop_emitted)

lemma send_command_activeTablets [simp]:
  "activeTablets (send_command socket now data st) = activeTablets st"
  by (simp add: send_command_def split: option.splits)

lemma command_executed_activeTablets [simp]:
  "activeTablets (command_executed socket now data st) = activeTablets st"
  by (simp add: command_executed_def)

lemma api_command_activeTablets [simp]:
  "activeTablets (snd (api_command tabletId_param req_ip now cmd prm st)) = activeTablets st"
  by (simp add: api_command_def split: option.splits prod.splits)

lemma step_keeps_online:
  assumes d: "distinct (map fst (activeTablets st))"
    and on: "\<forall>(k, t) \<in> set (activeTablets st). status t = ''online''"
  shows "distinct (map fst (activeTablets (step ev st)))
         \<and> (\<forall>(k, t) \<in> set (activeTablets (step ev st)). status t = ''online'')"
proof (cases ev)
  case (On_connection socket)
  with d on show ?thesis by simp
next
  case (On_tablet_register socket now data)
  show ?thesis
  proof (cases data)
    case None
    with d on On_tablet_register show ?thesis by (simp add: tablet_register_no_payload)
  next
    case (Some p)
    have "set (activeTablets (tablet_register socket now (Some p) st))
            \<subseteq> insert (socket_id socket, tabletInfo_of socket now p) (set (activeTablets st))"
      by (simp add: tablet_register_activeTablets set_Map_set)
    moreover have "status (tabletInfo_of socket now p) = ''online''"
      by (simp add: tabletInfo_of_def)
    moreover have "distinct (map fst (activeTablets (tablet_register socket now (Some p) st)))"
      using d by (simp add: tablet_register_activeTablets distinct_Map_set)
    ultimately show ?thesis
      using on On_tablet_register Some by auto
  qed
next
  case (On_tablet_status socket now data)
  show ?thesis
  proof (cases "Map_get (activeTablets st) (socket_id socket)")
    case None
    with d on On_tablet_status show ?thesis by (simp add: tablet_status_unbound)
  next
    case (Some tablet)
    let ?t = "tablet\<lparr> currentUrl := js_or (data_currentUrl data) (currentUrl tablet),
                     uptime := js_or (data_uptime data) (uptime tablet),
                     stats := js_or (data_stats data) (stats tablet),
                     lastSeen := now \<rparr>"
    from Some have "(socket_id socket, tablet) \<in> set (activeTablets st)" by (rule Map_get_mem)
    with on have "status ?t = ''online''" by auto
    moreover have act: "activeTablets (tablet_status socket now data st)
                     = Map_set (socket_id socket) ?t (activeTablets st)"
      by (simp add: tablet_status_bound [OF Some])
    moreover have "set (Map_set (socket_id socket) ?t (activeTablets st))
                     \<subseteq> insert (socket_id socket, ?t) (set (activeTablets st))"
      by (rule set_Map_set)
    moreover have "distinct (map fst (Map_set (socket_id socket) ?t (activeTablets st)))"
      using d by (rule distinct_Map_set)
    ultimately show ?thesis
      using on On_tablet_status by auto
  qed
next
  case (On_send_command socket now data)
  with d on show ?thesis by simp
next
  case (On_command_executed socket now data)
  with d on show ?thesis by simp
next
  case (On_disconnect socket now)
  let ?st = "st\<lparr> sockets := filter (\<lambda>s. socket_id s \<noteq> socket_id socket) (sockets st) \<rparr>"
  show ?thesis
  proof (cases "Map_get (activeTablets st) (socket_id socket)")
    case None
    then have "disconnect socket now ?st = ?st" by (simp add: disconnect_def)
    with d on On_disconnect show ?thesis by simp
  next
    case (Some tablet)
    then have "activeTablets (disconnect socket now ?st)
                 = Map_delete (socket_id socket) (activeTablets st)"
      by (simp add: disconnect_def Let_def)
    moreover have "set (Map_delete (socket_id socket) (activeTablets st)) \<subseteq> set (activeTablets st)"
      by (rule set_Map_delete)
    moreover have "distinct (map fst (Map_delete (socket_id socket) (activeTablets st)))"
      using d by (rule distinct_Map_delete)
    ultimately show ?thesis
      using on On_disconnect by auto
  qed
next
  case (Post_api_command tabletId_param req_ip now cmd prm)
  with d on show ?thesis by simp
next
  case (Interval_sweep now)
  have "activeTablets (sweep now st)
          = filter (\<lambda>(k, t). \<not> lastSeen t < now - 300000) (activeTablets st)"
    using d by (rule sweep_activeTablets)
  with d on Interval_sweep show ?thesis
    by (auto simp: distinct_map_filter)
qed

lemma run_keeps_online:
  "distinct (map fst (activeTablets st)) \<Longrightarrow>
   \<forall>(k, t) \<in> set (activeTablets st). status t = ''online'' \<Longrightarrow>
   distinct (map fst (activeTablets (run evs st)))
   \<and> (\<forall>(k, t) \<in> set (activeTablets (run evs st)). status t = ''online'')"
proof (induction evs arbitrary: st)
  case Nil
  then show ?case by simp
next
  case (Cons ev evs)
  from step_keeps_online [OF Cons.prems, of ev]
  have "distinct (map fst (activeTablets (step ev st)))"
    and "\<forall>(k, t) \<in> set (activeTablets (step ev st)). status t = ''online''" by simp_all
  then show ?case using Cons.IH [of "step ev st"] Cons.prems by simp
qed

lemma reachable_online:
  "distinct (map fst (activeTablets (run evs startup)))
   \<and> (\<forall>(k, t) \<in> set (activeTablets (run evs startup)). status t = ''online'')"
  by (rule run_keeps_online) (simp_all add: startup_def)

section \<open>Facts about the persistence gateway\<close>

lemma issue_fulfilled: "fst (issue outcome c db) = Fulfilled"
  by (cases c; cases outcome) (simp_all add: updateTablet_def logCommand_def pool_query_def)

lemma issue_queries: "queries (snd (issue outcome c db)) = queries db + 1"
  by (cases c; cases outcome) (simp_all add: updateTablet_def logCommand_def pool_query_def)

lemma issue_all_fulfilled: "set (fst (issue_all ocs db)) \<subseteq> {Fulfilled}"
proof (induction ocs arbitrary: db)
  case Nil
  show ?case by simp
next
  case (Cons oc ocs)
  obtain outcome c where oc: "oc = (outcome, c)" by (cases oc)
  obtain p db' where i: "issue outcome c db = (p, db')" by (cases "issue outcome c db")
  obtain ps db'' where r: "issue_all ocs db' = (ps, db'')" by (cases "issue_all ocs db'")
  from issue_fulfilled [of outcome c db] i have "p = Fulfilled" by simp
  moreover from Cons.IH [of db'] r have "set ps \<subseteq> {Fulfilled}" by simp
  ultimately show ?case using oc i r by simp
qed

lemma issue_all_queries: "queries (snd (issue_all ocs db)) = queries db + length ocs"
proof (induction ocs arbitrary: db)
  case Nil
  show ?case by simp
next
  case (Cons oc ocs)
  obtain outcome c where oc: "oc = (outcome, c)" by (cases oc)
  obtain p db' where i: "issue outcome c db = (p, db')" by (cases "issue outcome c db")
  obtain ps db'' where r: "issue_all ocs db' = (ps, db'')" by (cases "issue_all ocs db'")
  from issue_queries [of outcome c db] i have "queries db' = queries db + 1" by simp
  moreover from Cons.IH [of db'] r have "queries db'' = queries db' + length ocs" by simp
  ultimately show ?case using oc i r by simp
qed

text \<open>A handler only adds to the calls issued so far, so the calls of one event are a suffix.\<close>

lemma step_appends_dbCalls:
  "dbCalls (step ev st) = dbCalls st @ drop (length (dbCalls st)) (dbCalls (step ev st))"
proof (cases ev)
  case (Interval_sweep now)
  then show ?thesis by (simp add: sweep_dbCalls)
qed (auto simp: tablet_register_def tablet_status_def send_command_def command_executed_def
      disconnect_def api_command_def Let_def split: option.splits prod.splits if_splits)

section \<open>Registration\<close>

text \<open>
  Claim C7, as the code has it. For every connection handle and every payload object
  whose name and address, after the defaults, can be turned into a string,
  \<^verbatim>\<open>tablet-register\<close> returns without an exception: it hands the record to the database,
  announces it to the other connections and leaves no exception behind. The record it
  binds to the handle is built from the payload alone: the logical id is the
  connection handle when the payload has none, the display name is \<^verbatim>\<open>Tablet-\<close> followed
  by the first eight characters of the handle when the payload has none, the status
  is online and \<^verbatim>\<open>lastSeen\<close> is the current time. The record replaces whatever was bound
  to the handle; the handle is a key afterwards and the other bindings are as before.
\<close>

theorem register_completes_on_printable_payload:
  assumes "printable (name (tabletInfo_of socket now data))"
    and "printable (ip (tabletInfo_of socket now data))"
  shows "uncaught (tablet_register socket now (Some data) st) = uncaught st
   \<and> dbCalls (tablet_register socket now (Some data) st)
        = dbCalls st @ [UpdateTablet (tabletInfo_of socket now data)]
   \<and> emitted (tablet_register socket now (Some data) st)
        = emitted st @ [Broadcast (socket_id socket) (TabletOnline (tabletInfo_of socket now data))]
   \<and> Map_get (activeTablets (tablet_register socket now (Some data) st)) (socket_id socket)
       = Some (tabletInfo_of socket now data)
   \<and> status (tabletInfo_of socket now data) = ''online''
   \<and> lastSeen (tabletInfo_of socket now data) = now
   \<and> (data_tabletId data = None \<longrightarrow> id' (tabletInfo_of socket now data) = JStr (socket_id socket))
   \<and> (data_name data = None \<longrightarrow>
        name (tabletInfo_of socket now data) = JStr (''Tablet-'' @ take 8 (socket_id socket)))
   \<and> (\<forall>v. data_tabletId data = Some v \<and> truthy v \<longrightarrow> id' (tabletInfo_of socket now data) = v)
   \<and> (\<forall>v. data_name data = Some v \<and> truthy v \<longrightarrow> name (tabletInfo_of socket now data) = v)
   \<and> set (map fst (activeTablets (tablet_register socket now (Some data) st)))
        = insert (socket_id socket) (set (map fst (activeTablets st)))
   \<and> (\<forall>k. k \<noteq> socket_id socket \<longrightarrow>
        Map_get (activeTablets (tablet_register socket now (Some data) st)) k
          = Map_get (activeTablets st) k)"
proof -
  have effects: "uncaught (tablet_register socket now (Some data) st) = uncaught st
     \<and> dbCalls (tablet_register socket now (Some data) st)
          = dbCalls st @ [UpdateTablet (tabletInfo_of socket now data)]
     \<and> emitted (tablet_register socket now (Some data) st)
          = emitted st @ [Broadcast (socket_id socket) (TabletOnline (tabletInfo_of socket now data))]"
    using assms by (simp add: tablet_register_def Let_def)
  have built: "status (tabletInfo_of socket now data) = ''online''
     \<and> lastSeen (tabletInfo_of socket now data) = now
     \<and> (data_tabletId data = None \<longrightarrow> id' (tabletInfo_of socket now data) = JStr (socket_id socket))
     \<and> (data_name data = None \<longrightarrow>
          name (tabletInfo_of socket now data) = JStr (''Tablet-'' @ take 8 (socket_id socket)))
     \<and> (\<forall>v. data_tabletId data = Some v \<and> truthy v \<longrightarrow> id' (tabletInfo_of socket now data) = v)
     \<and> (\<forall>v. data_name data = Some v \<and> truthy v \<longrightarrow> name (tabletInfo_of socket now data) = v)"
    by (simp add: tabletInfo_of_def)
  have keys: "set (map fst (activeTablets (tablet_register socket now (Some data) st)))
        = insert (socket_id socket) (set (map fst (activeTablets st)))"
    by (simp add: tablet_register_activeTablets keys_Map_set [simplified])
  from effects built keys tablet_register_bound [of socket now data st]
       tablet_register_others [of _ socket now data st]
  show ?thesis by blast
qed

theorem register_completes_on_printable_payload_witness:
  "printable (name (tabletInfo_of tablet_A 1000 no_fields))
   \<and> printable (ip (tabletInfo_of tablet_A 1000 no_fields))
   \<and> printable (name (tabletInfo_of tablet_A 10 lobby))
   \<and> printable (ip (tabletInfo_of tablet_A 10 lobby))
   \<and> data_tabletId no_fields = None \<and> data_name no_fields = None
   \<and> uncaught (tablet_register tablet_A 1000 (Some no_fields)
                 (tablet_register tablet_A 10 (Some lobby) startup)) = None
   \<and> Map_get (activeTablets (tablet_register tablet_A 1000 (Some no_fields)
                 (tablet_register tablet_A 10 (Some lobby) startup))) (socket_id tablet_A)
       = Some \<lparr> id' = JStr ''sockAAAAAAAA0001'', name = JStr ''Tablet-sockAAAA'',
                ip = JStr ''10.0.0.1'', status = ''online'', currentUrl = JStr '''',
                lastSeen = 1000, uptime = JStr ''00:00:00'', stats = JObj [] \<rparr>
   \<and> emitted (tablet_register tablet_A 10 (Some lobby) startup)
       = [Broadcast ''sockAAAAAAAA0001'' (TabletOnline
           \<lparr> id' = JStr ''A'', name = JStr ''Lobby'', ip = JStr ''10.0.0.1'', status = ''online'',
             currentUrl = JStr ''http://a'', lastSeen = 10, uptime = JStr ''00:00:00'',
             stats = JObj [] \<rparr>)]
   \<and> data_tabletId lobby = Some (JStr ''A'') \<and> truthy (JStr ''A'')
   \<and> id' (tabletInfo_of tablet_A 10 lobby) = JStr ''A''
   \<and> name (tabletInfo_of tablet_A 10 lobby) = JStr ''Lobby''"
proof -
  have p1: "printable (name (tabletInfo_of tablet_A 1000 no_fields))"
    and p2: "printable (ip (tabletInfo_of tablet_A 1000 no_fields))"
    and p3: "printable (name (tabletInfo_of tablet_A 10 lobby))"
    and p4: "printable (ip (tabletInfo_of tablet_A 10 lobby))"
    by (simp_all add: tabletInfo_of_def no_fields_def lobby_def)
  from register_completes_on_printable_payload
         [OF p1 p2, of "tablet_register tablet_A 10 (Some lobby) startup"]
       register_completes_on_printable_payload [OF p3 p4, of startup]
  show ?thesis
    by (simp add: no_fields_def lobby_def tablet_A_def tabletInfo_of_def startup_def)
qed

text \<open>
  Claim C7 as written fails: registration does not succeed for every payload. With no
  payload the handler throws at once and binds nothing. With a name that is an object
  carrying a key \<^verbatim>\<open>toString\<close> it throws at the \<^verbatim>\<open>console.log\<close>, after the record was
  bound and before anything is announced.
\<close>

theorem register_throws_on_missing_or_unprintable_payload:
  "uncaught startup = None
   \<and> uncaught (tablet_register tablet_A 10 None startup) = Some TypeError
   \<and> Map_get (activeTablets (tablet_register tablet_A 10 None startup)) (socket_id tablet_A) = None
   \<and> dbCalls (tablet_register tablet_A 10 None startup) = []
   \<and> emitted (tablet_register tablet_A 10 None startup) = []
   \<and> data_name unprintable_name = Some (JObj [(''toString'', JNum 1)])
   \<and> uncaught (tablet_register tablet_A 10 (Some unprintable_name) startup) = Some TypeError
   \<and> emitted (tablet_register tablet_A 10 (Some unprintable_name) startup) = []"
  by (simp add: tablet_register_def tabletInfo_of_def Let_def startup_def
      unprintable_name_def no_fields_def tablet_A_def)

text \<open>
  Claim C2, as the code has it. When a connection handle registers twice, the second
  registration replaces the whole record by the one built from the second payload
  and keeps the entry's place in the Map. When the second payload has no logical id,
  or a falsy one, the record's logical id is the connection handle, whatever the
  first registration chose; when it has a truthy one, that value is the logical id.
\<close>

theorem second_register_rebuilds_record:
  "Map_get (activeTablets (tablet_register socket now2 (Some data2)
              (tablet_register socket now1 (Some data1) st))) (socket_id socket)
       = Some (tabletInfo_of socket now2 data2)
   \<and> map fst (activeTablets (tablet_register socket now2 (Some data2)
                  (tablet_register socket now1 (Some data1) st)))
       = map fst (activeTablets (tablet_register socket now1 (Some data1) st))
   \<and> (data_tabletId data2 = None \<longrightarrow>
         id' (tabletInfo_of socket now2 data2) = JStr (socket_id socket))
   \<and> (\<forall>v. data_tabletId data2 = Some v \<longrightarrow>
         id' (tabletInfo_of socket now2 data2) = (if truthy v then v else JStr (socket_id socket)))"
proof -
  have key: "socket_id socket \<in> set (map fst (activeTablets (tablet_register socket now1 (Some data1) st)))"
    by (simp add: tablet_register_activeTablets keys_Map_set [simplified])
  have "map fst (activeTablets (tablet_register socket now2 (Some data2)
                  (tablet_register socket now1 (Some data1) st)))
          = map fst (Map_set (socket_id socket) (tabletInfo_of socket now2 data2)
                       (activeTablets (tablet_register socket now1 (Some data1) st)))"
    by (simp add: tablet_register_activeTablets)
  also have "\<dots> = map fst (activeTablets (tablet_register socket now1 (Some data1) st))"
    using key by (simp only: map_fst_Map_set if_True)
  finally show ?thesis
    by (simp add: tablet_register_bound tabletInfo_of_def)
qed

theorem second_register_rebuilds_record_witness:
  "data_tabletId no_fields = None
   \<and> Map_get (activeTablets (tablet_register tablet_A 1000 (Some no_fields)
                 (tablet_register tablet_A 10 (Some lobby) startup))) (socket_id tablet_A)
       = Some \<lparr> id' = JStr ''sockAAAAAAAA0001'', name = JStr ''Tablet-sockAAAA'',
                ip = JStr ''10.0.0.1'', status = ''online'', currentUrl = JStr '''',
                lastSeen = 1000, uptime = JStr ''00:00:00'', stats = JObj [] \<rparr>
   \<and> data_tabletId lobby = Some (JStr ''A'')
   \<and> map_option id' (Map_get (activeTablets (tablet_register tablet_A 1000 (Some lobby)
                 (tablet_register tablet_A 10 (Some no_fields) startup))) (socket_id tablet_A))
       = Some (JStr ''A'')"
  using second_register_rebuilds_record [of tablet_A 1000 no_fields 10 lobby startup]
        second_register_rebuilds_record [of tablet_A 1000 lobby 10 no_fields startup]
  by (simp add: no_fields_def lobby_def tablet_A_def tabletInfo_of_def)

text \<open>
  Claim C2 as written fails: a second registration that omits the logical id does
  not keep the one the first registration chose.
\<close>

theorem second_register_drops_prior_id:
  "data_tabletId no_fields = None
   \<and> map_option id' (Map_get (activeTablets (tablet_register tablet_A 10 (Some lobby) startup))
        (socket_id tablet_A)) = Some (JStr ''A'')
   \<and> map_option id' (Map_get (activeTablets (tablet_register tablet_A 1000 (Some no_fields)
        (tablet_register tablet_A 10 (Some lobby) startup))) (socket_id tablet_A))
       = Some (JStr ''sockAAAAAAAA0001'')
   \<and> map_option id' (Map_get (activeTablets (tablet_register tablet_A 1000 (Some no_fields)
        (tablet_register tablet_A 10 (Some lobby) startup))) (socket_id tablet_A))
       \<noteq> Some (JStr ''A'')"
  by (simp add: tablet_register_def tabletInfo_of_def Let_def startup_def
      lobby_def no_fields_def tablet_A_def)

section \<open>Status updates\<close>






section \<open>Disconnection\<close>

text \<open>
  Claim C6. For every connection handle with an active binding, the \<^verbatim>\<open>disconnect\<close>
  handler hands the record, with status offline and \<^verbatim>\<open>lastSeen\<close> the current time, to
  the database and to the other connections as one \<^verbatim>\<open>tablet-offline\<close> message, and takes
  the binding out of the Map: the handle is no longer a key, the other bindings are as
  before, and when the records of the registry were all online the record that was
  sent out is not in the snapshot.
\<close>

theorem disconnect_marks_offline_and_removes:
  assumes "Map_get (activeTablets st) (socket_id socket) = Some tablet"
  shows "dbCalls (disconnect socket now st)
           = dbCalls st @ [UpdateTablet (tablet\<lparr> status := ''offline'', lastSeen := now \<rparr>)]
         \<and> emitted (disconnect socket now st)
           = emitted st @ [Broadcast (socket_id socket)
                (TabletOffline (tablet\<lparr> status := ''offline'', lastSeen := now \<rparr>))]
         \<and> Map_get (activeTablets (disconnect socket now st)) (socket_id socket) = None
         \<and> socket_id socket \<notin> set (map fst (activeTablets (disconnect socket now st)))
         \<and> (\<forall>k. k \<noteq> socket_id socket \<longrightarrow>
               Map_get (activeTablets (disconnect socket now st)) k = Map_get (activeTablets st) k)
         \<and> ((\<forall>t \<in> set (snapshot st). status t = ''online'') \<longrightarrow>
               tablet\<lparr> status := ''offline'', lastSeen := now \<rparr>
                 \<notin> set (snapshot (disconnect socket now st)))"
proof -
  let ?st' = "disconnect socket now st"
  have act: "activeTablets ?st' = Map_delete (socket_id socket) (activeTablets st)"
    using assms by (simp add: disconnect_bound)
  have gone: "Map_get (activeTablets ?st') (socket_id socket) = None"
    by (simp add: act Map_get_delete)
  have nokey: "socket_id socket \<notin> set (map fst (activeTablets ?st'))"
    using gone by (simp add: Map_get_None)
  have others: "\<forall>k. k \<noteq> socket_id socket \<longrightarrow>
                  Map_get (activeTablets ?st') k = Map_get (activeTablets st) k"
    by (simp add: act Map_get_delete)
  have snap: "(\<forall>t \<in> set (snapshot st). status t = ''online'') \<longrightarrow>
               tablet\<lparr> status := ''offline'', lastSeen := now \<rparr> \<notin> set (snapshot ?st')"
  proof
    assume online: "\<forall>t \<in> set (snapshot st). status t = ''online''"
    have "set (snapshot ?st') \<subseteq> set (snapshot st)"
      using set_Map_delete [of "socket_id socket" "activeTablets st"]
      by (auto simp: snapshot_def act)
    with online have "\<forall>t \<in> set (snapshot ?st'). status t = ''online''" by blast
    then show "tablet\<lparr> status := ''offline'', lastSeen := now \<rparr> \<notin> set (snapshot ?st')"
      by auto
  qed
  have calls: "dbCalls ?st'
           = dbCalls st @ [UpdateTablet (tablet\<lparr> status := ''offline'', lastSeen := now \<rparr>)]"
    using assms by (simp add: disconnect_bound)
  have msgs: "emitted ?st' = emitted st @ [Broadcast (socket_id socket)
                (TabletOffline (tablet\<lparr> status := ''offline'', lastSeen := now \<rparr>))]"
    using assms by (simp add: disconnect_bound)
  from calls msgs gone nokey others snap show ?thesis by blast
qed

theorem disconnect_marks_offline_and_removes_witness:
  "Map_get (activeTablets registered_A) (socket_id tablet_A)
      = Some \<lparr> id' = JStr ''A'', name = JStr ''Lobby'', ip = JStr ''10.0.0.1'', status = ''online'',
            currentUrl = JStr ''http://a'', lastSeen = 10, uptime = JStr ''00:00:00'',
            stats = JObj [] \<rparr>
   \<and> map status (snapshot registered_A) = [''online'']
   \<and> snapshot (disconnect tablet_A 5000 registered_A) = []
   \<and> dbCalls (disconnect tablet_A 5000 registered_A)
      = dbCalls registered_A @ [UpdateTablet
          \<lparr> id' = JStr ''A'', name = JStr ''Lobby'', ip = JStr ''10.0.0.1'', status = ''offline'',
            currentUrl = JStr ''http://a'', lastSeen = 5000, uptime = JStr ''00:00:00'',
            stats = JObj [] \<rparr>]
   \<and> emitted (disconnect tablet_A 5000 registered_A)
      = emitted registered_A @ [Broadcast ''sockAAAAAAAA0001'' (TabletOffline
          \<lparr> id' = JStr ''A'', name = JStr ''Lobby'', ip = JStr ''10.0.0.1'', status = ''offline'',
            currentUrl = JStr ''http://a'', lastSeen = 5000, uptime = JStr ''00:00:00'',
            stats = JObj [] \<rparr>)]"
  using disconnect_marks_offline_and_removes [of registered_A tablet_A _ 5000]
  by (simp add: registered_A_eq tablet_A_def snapshot_def disconnect_def Let_def)

section \<open>Command dispatch\<close>

text \<open>
  Claim C4. For every logical id that no active binding carries, both ways of
  dispatching a command find no target. The \<^verbatim>\<open>send-command\<close> handler sends nothing but
  one \<^verbatim>\<open>command-error\<close> message to the connection that asked, and the REST endpoint
  answers 404 with \<^verbatim>\<open>Tablet no encontrada\<close>; neither sends a \<^verbatim>\<open>remote-command\<close>, neither
  calls \<^verbatim>\<open>logCommand\<close>, and the registry and the connected sockets are as before.
\<close>

theorem dispatch_unknown_id_not_found:
  assumes "\<forall>(k, t) \<in> set (activeTablets st). \<not> strict_eq (id' t) logicalId"
  shows "(cmd_tabletId data = Some logicalId \<longrightarrow>
            send_command socket now data st
              = st\<lparr> emitted := emitted st @
                     [Emit (socket_id socket)
                        (CommandError ''Tablet no encontrada o desconectada'' (Some logicalId))] \<rparr>)
         \<and> (logicalId = JStr tabletId_param \<longrightarrow>
              api_command tabletId_param req_ip now cmd prm st
                = (Failure 404 ''Tablet no encontrada'', st))"
proof -
  have no_socket: "find (\<lambda>s. strict_eq_opt (map_option id' (Map_get (activeTablets st) (socket_id s)))
                                  (Some logicalId)) (sockets st) = None"
  proof -
    have miss: "\<not> strict_eq_opt (map_option id' (Map_get (activeTablets st) (socket_id s))) (Some logicalId)"
      for s
    proof (cases "Map_get (activeTablets st) (socket_id s)")
      case None
      then show ?thesis by simp
    next
      case (Some t)
      then have "(socket_id s, t) \<in> set (activeTablets st)" by (rule Map_get_mem)
      with assms have "\<not> strict_eq (id' t) logicalId" by blast
      with Some show ?thesis by simp
    qed
    show ?thesis by (simp add: find_None_iff miss)
  qed
  have no_entry: "logicalId = JStr tabletId_param \<Longrightarrow>
      find (\<lambda>(_, tablet). strict_eq (id' tablet) (JStr tabletId_param)) (activeTablets st) = None"
    using assms by (auto simp: find_None_iff)
  show ?thesis
    using no_socket no_entry by (simp add: send_command_def api_command_def)
qed

theorem dispatch_unknown_id_not_found_witness:
  "map id' (snapshot watched_A) = [JStr ''A'']
   \<and> \<not> strict_eq (JStr ''A'') (JStr ''Z'')
   \<and> cmd_tabletId reload = Some (JStr ''Z'')
   \<and> send_command dashboard 3000 reload watched_A
        = watched_A\<lparr> emitted := emitted watched_A @
            [Emit ''sockDDDDDDDD0003''
               (CommandError ''Tablet no encontrada o desconectada'' (Some (JStr ''Z'')))] \<rparr>
   \<and> api_command ''Z'' ''10.0.0.9'' 3000 (Some (JStr ''reload'')) None watched_A
        = (Failure 404 ''Tablet no encontrada'', watched_A)"
  using dispatch_unknown_id_not_found [of watched_A "JStr ''Z''" reload dashboard 3000 "''Z''"
          "''10.0.0.9''" "Some (JStr ''reload'')" None]
  by (simp add: watched_A_eq registered_A_eq reload_def dashboard_def snapshot_def)

section \<open>The sweep\<close>

text \<open>
  Claim C5. A sweep keeps exactly the bindings whose \<^verbatim>\<open>lastSeen\<close> is not earlier than
  the current time minus five minutes and removes the others. So a tablet last seen
  at \<open>T\<close> is still bound after a sweep at \<open>T\<close> plus five minutes minus one second, and
  is not a key after a sweep at \<open>T\<close> plus five minutes plus one second. Each key stands
  once in a Map, which is the hypothesis.
\<close>

theorem sweep_evicts_exactly_stale:
  assumes "distinct (map fst (activeTablets st))"
  shows "activeTablets (sweep now st)
           = filter (\<lambda>(socketId, tablet). \<not> lastSeen tablet < now - 300000) (activeTablets st)
         \<and> (\<forall>socketId tablet. (socketId, tablet) \<in> set (activeTablets st) \<longrightarrow>
               (socketId, tablet) \<in> set (activeTablets (sweep (lastSeen tablet + 300000 - 1000) st))
               \<and> Map_get (activeTablets (sweep (lastSeen tablet + 300000 + 1000) st)) socketId = None)"
proof -
  have kept: "(socketId, tablet) \<in> set (activeTablets (sweep (lastSeen tablet + 300000 - 1000) st))"
    if "(socketId, tablet) \<in> set (activeTablets st)" for socketId tablet
    using that by (simp add: sweep_activeTablets [OF assms])
  have gone: "Map_get (activeTablets (sweep (lastSeen tablet + 300000 + 1000) st)) socketId = None"
    if mem: "(socketId, tablet) \<in> set (activeTablets st)" for socketId tablet
  proof -
    have "(socketId, t') \<notin> set (activeTablets (sweep (lastSeen tablet + 300000 + 1000) st))" for t'
    proof
      assume "(socketId, t') \<in> set (activeTablets (sweep (lastSeen tablet + 300000 + 1000) st))"
      then have t': "(socketId, t') \<in> set (activeTablets st)"
        and fresh: "\<not> lastSeen t' < lastSeen tablet + 300000 + 1000 - 300000"
        by (simp_all add: sweep_activeTablets [OF assms])
      from assms t' mem have "t' = tablet" by (metis eq_key_imp_eq_value)
      with fresh show False by simp
    qed
    then show ?thesis by (force simp: Map_get_None)
  qed
  from kept gone sweep_activeTablets [OF assms, of now] show ?thesis by blast
qed

theorem sweep_evicts_exactly_stale_witness:
  "distinct (map fst (activeTablets two_tablets))
   \<and> map fst (activeTablets two_tablets) = [''sockAAAAAAAA0001'', ''sockBBBBBBBB0002'']
   \<and> map fst (activeTablets (sweep 300011 two_tablets)) = [''sockBBBBBBBB0002'']
   \<and> map fst (activeTablets (sweep 300010 two_tablets)) = [''sockAAAAAAAA0001'', ''sockBBBBBBBB0002'']
   \<and> map fst (activeTablets (sweep 301010 two_tablets)) = [''sockBBBBBBBB0002'']
   \<and> map fst (activeTablets (sweep 299010 two_tablets)) = [''sockAAAAAAAA0001'', ''sockBBBBBBBB0002'']"
proof -
  have d: "distinct (map fst (activeTablets two_tablets))"
    by (simp add: two_tablets_active)
  have "map fst (activeTablets (sweep now two_tablets))
          = map fst (filter (\<lambda>(socketId, tablet). \<not> lastSeen tablet < now - 300000)
                       (activeTablets two_tablets))" for now
    using sweep_evicts_exactly_stale [OF d, of now] by simp
  with d show ?thesis by (simp add: two_tablets_active)
qed

text \<open>
  Claim C1 against the code. A sweep that evicts a stale tablet marks the record
  offline, hands it to the database and deletes the binding, but it leaves \<^verbatim>\<open>lastSeen\<close>
  as it was and sends no message to anybody; the \<^verbatim>\<open>disconnect\<close> handler, on the same
  registry, sets \<^verbatim>\<open>lastSeen\<close> and broadcasts one \<^verbatim>\<open>tablet-offline\<close>. Below, tablet A was
  last seen at 10 and the sweep runs at 300011.
\<close>

theorem sweep_eviction_sends_no_offline_message:
  "map fst (activeTablets (sweep 300011 two_tablets)) = [''sockBBBBBBBB0002'']
   \<and> dbCalls (sweep 300011 two_tablets)
       = dbCalls two_tablets @ [UpdateTablet
           \<lparr> id' = JStr ''A'', name = JStr ''Lobby'', ip = JStr ''10.0.0.1'', status = ''offline'',
             currentUrl = JStr ''http://a'', lastSeen = 10, uptime = JStr ''00:00:00'',
             stats = JObj [] \<rparr>]
   \<and> emitted (sweep 300011 two_tablets) = emitted two_tablets
   \<and> emitted (disconnect tablet_A 300011 two_tablets)
       = emitted two_tablets @ [Broadcast ''sockAAAAAAAA0001'' (TabletOffline
           \<lparr> id' = JStr ''A'', name = JStr ''Lobby'', ip = JStr ''10.0.0.1'', status = ''offline'',
             currentUrl = JStr ''http://a'', lastSeen = 300011, uptime = JStr ''00:00:00'',
             stats = JObj [] \<rparr>)]"
proof -
  have d: "distinct (map fst (activeTablets two_tablets))"
    by (simp add: two_tablets_active)
  have bound: "Map_get (activeTablets two_tablets) (socket_id tablet_A)
      = Some \<lparr> id' = JStr ''A'', name = JStr ''Lobby'', ip = JStr ''10.0.0.1'', status = ''online'',
             currentUrl = JStr ''http://a'', lastSeen = 10, uptime = JStr ''00:00:00'',
             stats = JObj [] \<rparr>"
    by (simp add: two_tablets_active tablet_A_def)
  show ?thesis
    unfolding disconnect_bound [OF bound]
    by (simp add: sweep_activeTablets [OF d] sweep_dbCalls sweep_emitted
        two_tablets_active tablet_A_def)
qed

section \<open>The registry holds online records only\<close>

text \<open>
  Claim C9. After any sequence of events from startup, every record of the registry
  has status online: registration writes online, a status update keeps the status,
  and the two places that write offline (the \<^verbatim>\<open>disconnect\<close> handler and the sweep) delete
  the binding in the same run. So the two counts of \<^verbatim>\<open>/api/stats\<close> are equal.
\<close>

theorem active_records_always_online:
  "(\<forall>t \<in> set (snapshot (run evs startup)). status t = ''online'')
   \<and> onlineTablets (run evs startup) = totalTablets (run evs startup)"
proof -
  have on: "\<forall>(k, t) \<in> set (activeTablets (run evs startup)). status t = ''online''"
    using reachable_online [of evs] by simp
  then have all: "\<forall>t \<in> set (snapshot (run evs startup)). status t = ''online''"
    by (auto simp: snapshot_def)
  then have "filter (\<lambda>t. status t = ''online'') (map snd (activeTablets (run evs startup)))
               = map snd (activeTablets (run evs startup))"
    by (simp add: snapshot_def)
  then show ?thesis
    using all by (simp add: onlineTablets_def totalTablets_def)
qed

theorem active_records_always_online_witness:
  "map status (snapshot (run history_sweep startup)) = [''online'']
   \<and> onlineTablets (run history_sweep startup) = 1
   \<and> totalTablets (run history_sweep startup) = 1
   \<and> snapshot (run history_disconnect startup) = []
   \<and> onlineTablets (run history_disconnect startup) = totalTablets (run history_disconnect startup)"
proof -
  have d: "distinct (map fst (activeTablets two_tablets))"
    by (simp add: two_tablets_active)
  have s: "run history_sweep startup = sweep 300011 two_tablets"
    by (simp add: two_tablets_def history_sweep_def startup_def tablet_register_def
        tablet_status_def tabletInfo_of_def Let_def lobby_def no_fields_def
        tablet_A_def tablet_B_def)
  have a: "activeTablets (run history_sweep startup)
             = [(''sockBBBBBBBB0002'',
                 \<lparr> id' = JStr ''B'', name = JStr ''Tablet-sockBBBB'', ip = JStr ''10.0.0.2'',
                   status = ''online'', currentUrl = JStr [], lastSeen = 299000,
                   uptime = JStr ''00:00:00'', stats = JObj [] \<rparr>)]"
    by (simp add: s sweep_activeTablets [OF d] two_tablets_active)
  have b: "activeTablets (run history_disconnect startup) = []"
    by (simp add: history_disconnect_def startup_def tablet_register_def disconnect_def
        tabletInfo_of_def Let_def lobby_def no_fields_def tablet_A_def)
  from active_records_always_online [of history_sweep]
       active_records_always_online [of history_disconnect]
  show ?thesis
    by (simp add: snapshot_def onlineTablets_def totalTablets_def a b)
qed

section \<open>Failing writes\<close>

text \<open>
  Claim C8. Whatever the outcome of the query, the promise of \<^verbatim>\<open>updateTablet\<close> and of
  \<^verbatim>\<open>logCommand\<close> is fulfilled, never rejected, and exactly one query was sent. When the
  query fails, nothing is carried out, one line goes to \<^verbatim>\<open>console.error\<close> and that is
  all that changes. For an event with the database behind it: every promise of the
  calls the handler issued is fulfilled, one query is sent per call that got an
  outcome, and the server after the event (registry, connected sockets, messages
  sent, calls issued) is the one the handler alone produces, the same for every
  choice of outcomes.
\<close>

theorem persistence_failure_swallowed:
  "fst (updateTablet outcome tabletInfo db) = Fulfilled
   \<and> fst (logCommand outcome commandInfo db) = Fulfilled
   \<and> queries (snd (updateTablet outcome tabletInfo db)) = queries db + 1
   \<and> queries (snd (logCommand outcome commandInfo db)) = queries db + 1
   \<and> (\<forall>msg. outcome = Rejected msg \<longrightarrow>
         snd (updateTablet outcome tabletInfo db)
           = db\<lparr> queries := queries db + 1,
                 console_error := console_error db @ [''Error actualizando tablet: '' @ msg] \<rparr>
         \<and> snd (logCommand outcome commandInfo db)
           = db\<lparr> queries := queries db + 1,
                 console_error := console_error db @ [''Error logging comando: '' @ msg] \<rparr>)
   \<and> set (fst (snd (handle ev outcomes (st, db)))) \<subseteq> {Fulfilled}
   \<and> queries (snd (snd (handle ev outcomes (st, db))))
        = queries db + min (length outcomes) (length (dbCalls (step ev st)) - length (dbCalls st))
   \<and> fst (handle ev outcomes (st, db)) = step ev st
   \<and> fst (handle ev outcomes (st, db)) = fst (handle ev (map (\<lambda>_. Resolved) outcomes) (st, db))"
proof -
  have single: "fst (updateTablet outcome tabletInfo db) = Fulfilled
     \<and> fst (logCommand outcome commandInfo db) = Fulfilled
     \<and> queries (snd (updateTablet outcome tabletInfo db)) = queries db + 1
     \<and> queries (snd (logCommand outcome commandInfo db)) = queries db + 1"
    by (cases outcome) (simp_all add: updateTablet_def logCommand_def pool_query_def)
  have failing: "\<forall>msg. outcome = Rejected msg \<longrightarrow>
         snd (updateTablet outcome tabletInfo db)
           = db\<lparr> queries := queries db + 1,
                 console_error := console_error db @ [''Error actualizando tablet: '' @ msg] \<rparr>
         \<and> snd (logCommand outcome commandInfo db)
           = db\<lparr> queries := queries db + 1,
                 console_error := console_error db @ [''Error logging comando: '' @ msg] \<rparr>"
    by (simp add: updateTablet_def logCommand_def pool_query_def)
  have promises: "set (fst (snd (handle ev outcomes (st, db)))) \<subseteq> {Fulfilled}"
    by (simp add: handle_def Let_def issue_all_fulfilled)
  have count: "queries (snd (snd (handle ev outcomes (st, db))))
        = queries db + min (length outcomes) (length (dbCalls (step ev st)) - length (dbCalls st))"
    by (simp add: handle_def Let_def issue_all_queries)
  have same: "fst (handle ev outcomes (st, db)) = step ev st"
    "fst (handle ev outcomes (st, db)) = fst (handle ev (map (\<lambda>_. Resolved) outcomes) (st, db))"
    by (simp_all add: handle_def Let_def)
  from single failing promises count same show ?thesis by blast
qed

theorem persistence_failure_swallowed_witness:
  "handle (On_tablet_register tablet_A 10 (Some lobby)) [Rejected ''connection refused'']
          (step (On_connection tablet_A) startup, empty_db)
     = (registered_A, [Fulfilled],
        \<lparr> executed = [],
          console_error = [''Error actualizando tablet: connection refused''],
          queries = 1 \<rparr>)
   \<and> handle (On_tablet_register tablet_A 10 (Some lobby)) [Resolved]
          (step (On_connection tablet_A) startup, empty_db)
     = (registered_A, [Fulfilled],
        \<lparr> executed = [InsertTablet
            \<lparr> id' = JStr ''A'', name = JStr ''Lobby'', ip = JStr ''10.0.0.1'', status = ''online'',
              currentUrl = JStr ''http://a'', lastSeen = 10, uptime = JStr ''00:00:00'',
              stats = JObj [] \<rparr>],
          console_error = [], queries = 1 \<rparr>)
   \<and> snd (logCommand (Rejected ''connection refused'')
          \<lparr> tabletId = Some (JStr ''A''), command = Some (JStr ''reload''), params = None,
            timestamp = 20, sourceIp = ''10.0.0.9'' \<rparr> empty_db)
     = \<lparr> executed = [], console_error = [''Error logging comando: connection refused''],
         queries = 1 \<rparr>"
  using persistence_failure_swallowed [of "Rejected ''connection refused''"
          "tabletInfo_of tablet_A 10 lobby"
          empty_db
          "\<lparr> tabletId = Some (JStr ''A''), command = Some (JStr ''reload''), params = None,
            timestamp = 20, sourceIp = ''10.0.0.9'' \<rparr>"
          "On_tablet_register tablet_A 10 (Some lobby)" "[Rejected ''connection refused'']"
          "step (On_connection tablet_A) startup"]
  by (simp add: handle_def Let_def registered_A_def startup_def tablet_register_def
      updateTablet_def logCommand_def pool_query_def empty_db_def tabletInfo_of_def
      lobby_def no_fields_def tablet_A_def)

end
